theory Spec2Isabelle
  imports Complex_Main
begin

section \<open>Python values: errors, slices, arrays\<close>

text \<open>
  The repository is two Python files: \<^verbatim>\<open>contact_point_dataset.py\<close> (a dataset wrapper over a
  numeric array) and \<^verbatim>\<open>contactpoint_datamodule.py\<close> (the split into train, validation and
  test subsets and the batch loaders). Exceptions are values of \<open>error\<close>; a function that
  can raise returns \<open>error + 'a\<close>, with \<open>Inl\<close> for the exception.
\<close>

datatype error =
  IndexError | ValueError | TypeError | ZeroDivisionError | OverflowError | RuntimeError string

text \<open>
  A Python slice \<^verbatim>\<open>xs[start:stop]\<close> with integer bounds and step 1. A negative bound counts
  from the end, and every bound is clamped to \<open>[0, len]\<close>; a stop before the start gives
  the empty list.
\<close>

definition slice_index :: "int \<Rightarrow> nat \<Rightarrow> nat" where
  "slice_index k n =
     (if k < 0 then (if k + int n < 0 then 0 else nat (k + int n))
      else (if int n < k then n else nat k))"

definition py_slice :: "int \<Rightarrow> int \<Rightarrow> 'a list \<Rightarrow> 'a list" where
  "py_slice start stop xs =
     (let a = slice_index start (length xs); b = slice_index stop (length xs)
      in take (b - a) (drop a xs))"

text \<open>
  A two-dimensional numpy array is its element type tag and its rows; \<^verbatim>\<open>a[idx]\<close> is a
  one-dimensional array and \<^verbatim>\<open>torch.from_numpy\<close> turns it into a tensor of the same
  element type and the same data. The element values are of an arbitrary type \<open>'v\<close>: the
  conversion of one value by \<^verbatim>\<open>astype\<close> (rounding to the target type) is the parameter
  \<open>cast\<close>, from the old tag and the new one.
\<close>

datatype dtype = Int32 | Int64 | Float16 | Float32 | Float64

record 'v ndarray =
  arr_dtype :: dtype
  arr_rows :: "'v list list"

record 'v ndarray1 =
  vec_dtype :: dtype
  vec_data :: "'v list"

record 'v tensor =
  t_dtype :: dtype
  t_data :: "'v list"

definition astype :: "(dtype \<Rightarrow> dtype \<Rightarrow> 'v \<Rightarrow> 'v) \<Rightarrow> dtype \<Rightarrow> 'v ndarray \<Rightarrow> 'v ndarray" where
  "astype cast t a = \<lparr>arr_dtype = t, arr_rows = map (map (cast (arr_dtype a) t)) (arr_rows a)\<rparr>"

text \<open>\<^verbatim>\<open>len(a)\<close> of a two-dimensional array is its number of rows.\<close>

definition len_arr :: "'v ndarray \<Rightarrow> nat" where
  "len_arr a = length (arr_rows a)"

text \<open>\<^verbatim>\<open>a[:, start:stop]\<close>: the column slice, taken in every row.\<close>

definition slice_cols :: "int \<Rightarrow> int \<Rightarrow> 'v ndarray \<Rightarrow> 'v ndarray" where
  "slice_cols start stop a = a\<lparr>arr_rows := map (py_slice start stop) (arr_rows a)\<rparr>"

text \<open>
  \<^verbatim>\<open>a[idx]\<close> with an integer: numpy accepts \<open>-len \<le> idx < len\<close>, a negative index
  counting from the end, and raises IndexError outside that range.
\<close>

definition index_row :: "'v ndarray \<Rightarrow> int \<Rightarrow> error + 'v ndarray1" where
  "index_row a idx =
     (let n = int (len_arr a)
      in if idx < - n \<or> n \<le> idx then Inl IndexError
         else Inr \<lparr>vec_dtype = arr_dtype a,
                   vec_data = arr_rows a ! nat (if idx < 0 then idx + n else idx)\<rparr>)"

definition from_numpy :: "'v ndarray1 \<Rightarrow> 'v tensor" where
  "from_numpy v = \<lparr>t_dtype = vec_dtype v, t_data = vec_data v\<rparr>"

section \<open>The dataset wrapper (contact_point_dataset.py)\<close>

text \<open>
  \<^verbatim>\<open>
  data = np.load(data_path).astype('float32')
  self.input = data[:, 0 : -3]
  self.output = data[:, -3 : len(data[:,])]
  \<close>
  The array that \<^verbatim>\<open>np.load\<close> returns is the argument \<open>loaded\<close>. The stop of the second
  slice is \<^verbatim>\<open>len(data[:,])\<close>: the number of rows of the array, used as a column bound.
\<close>

text \<open>The fields \<^verbatim>\<open>self.input\<close> and \<^verbatim>\<open>self.output\<close> (both names are Isabelle keywords).\<close>

record 'v ContactPoint_Dataset =
  ds_input :: "'v ndarray"
  ds_output :: "'v ndarray"

definition dataset_init :: "(dtype \<Rightarrow> dtype \<Rightarrow> 'v \<Rightarrow> 'v) \<Rightarrow> 'v ndarray \<Rightarrow> 'v ContactPoint_Dataset" where
  "dataset_init cast loaded =
     (let data = astype cast Float32 loaded
      in \<lparr>ds_input = slice_cols 0 (- 3) data,
          ds_output = slice_cols (- 3) (int (len_arr data)) data\<rparr>)"

text \<open>\<^verbatim>\<open>__len__\<close>: \<^verbatim>\<open>len(self.input)\<close>.\<close>

definition dataset_len :: "'v ContactPoint_Dataset \<Rightarrow> nat" where
  "dataset_len self = len_arr (ds_input self)"

text \<open>
  \<^verbatim>\<open>__getitem__\<close>: the row \<open>idx\<close> of \<^verbatim>\<open>self.input\<close>, then of \<^verbatim>\<open>self.output\<close>, each as a tensor.
\<close>

definition dataset_getitem :: "'v ContactPoint_Dataset \<Rightarrow> int \<Rightarrow> error + ('v tensor \<times> 'v tensor)" where
  "dataset_getitem self idx =
     (case index_row (ds_input self) idx of
        Inl e \<Rightarrow> Inl e
      | Inr x \<Rightarrow>
          (case index_row (ds_output self) idx of
             Inl e \<Rightarrow> Inl e
           | Inr y \<Rightarrow> Inr (from_numpy x, from_numpy y)))"

text \<open>
  A source array of \<open>N\<close> rows and \<open>D\<close> columns: \<open>N\<close> is \<open>len_arr\<close>, and every row has
  \<open>D\<close> elements.
\<close>

definition has_columns :: "nat \<Rightarrow> 'v ndarray \<Rightarrow> bool" where
  "has_columns D a = list_all (\<lambda>r. length r = D) (arr_rows a)"

text \<open>The row that the integer index \<open>i\<close> addresses when it is in range.\<close>

definition row_at :: "'v ndarray \<Rightarrow> int \<Rightarrow> 'v list" where
  "row_at a i = arr_rows a ! nat (if i < 0 then i + int (len_arr a) else i)"

text \<open>
  Three small source arrays, with integers for the element values and a conversion that
  keeps them: two rows of five columns, three rows of four columns, and four rows of four
  columns.
\<close>

definition keep :: "dtype \<Rightarrow> dtype \<Rightarrow> int \<Rightarrow> int" where
  "keep old new v = v"

definition rows_2x5 :: "int ndarray" where
  "rows_2x5 = \<lparr>arr_dtype = Float32, arr_rows = [[1, 2, 3, 4, 5], [6, 7, 8, 9, 10]]\<rparr>"

definition rows_3x4 :: "int ndarray" where
  "rows_3x4 = \<lparr>arr_dtype = Float32, arr_rows = [[1, 2, 3, 4], [5, 6, 7, 8], [9, 10, 11, 12]]\<rparr>"

definition rows_4x4 :: "int ndarray" where
  "rows_4x4 = \<lparr>arr_dtype = Int64,
                arr_rows = [[1, 2, 3, 4], [5, 6, 7, 8], [9, 10, 11, 12], [13, 14, 15, 16]]\<rparr>"

section \<open>The torch.utils.data library: Subset, random_split, DataLoader\<close>

text \<open>
  The data module calls three things of the torch library, which is not part of the
  repository. They are modelled from the library's documented behaviour, and the one
  thing left open, the pseudo-random permutation a generator draws, is a parameter.

  \<^verbatim>\<open>Subset(dataset, indices)\<close> is a dataset and a list of indices into it; its length is
  the number of indices. Python's truth value of an object with \<^verbatim>\<open>__len__\<close> and no
  \<^verbatim>\<open>__bool__\<close> is \<^verbatim>\<open>len(obj) != 0\<close>, and \<^verbatim>\<open>None\<close> is false.
\<close>

record 'v Subset =
  sub_dataset :: "'v ContactPoint_Dataset"
  indices :: "nat list"

definition subset_len :: "'v Subset \<Rightarrow> nat" where
  "subset_len s = length (indices s)"

definition falsy :: "'v Subset option \<Rightarrow> bool" where
  "falsy s = (case s of None \<Rightarrow> True | Some d \<Rightarrow> subset_len d = 0)"

text \<open>\<^verbatim>\<open>itertools.accumulate\<close>: the running sums, from the accumulator \<open>acc\<close>.\<close>

fun accumulate :: "int \<Rightarrow> int list \<Rightarrow> int list" where
  "accumulate acc [] = []"
| "accumulate acc (x # xs) = (acc + x) # accumulate (acc + x) xs"

text \<open>
  \<^verbatim>\<open>random_split(dataset, lengths, generator)\<close> with integer lengths:
  \<^verbatim>\<open>
  if math.isclose(sum(lengths), 1) and sum(lengths) <= 1:
      subset_lengths = []
      for i, frac in enumerate(lengths):
          if frac < 0 or frac > 1:
              raise ValueError(f"Fraction at index {i} is not between 0 and 1")
          n_items_in_split = int(math.floor(len(dataset) * frac))
          subset_lengths.append(n_items_in_split)
      remainder = len(dataset) - sum(subset_lengths)
      for i in range(remainder):
          idx_to_add_at = i % len(subset_lengths)
          subset_lengths[idx_to_add_at] += 1
      lengths = subset_lengths
  if sum(lengths) != len(dataset):
      raise ValueError("Sum of input lengths does not equal the length of the input dataset!")
  indices = randperm(sum(lengths), generator=generator).tolist()
  return [Subset(dataset, indices[offset - length : offset])
          for offset, length in zip(itertools.accumulate(lengths), lengths)]
  \<close>
  Lengths that sum to 1 are read as fractions of the dataset. The permutation of
  \<^verbatim>\<open>randperm(n, generator)\<close> is the parameter \<open>perm\<close>, a function of \<open>n\<close>.
\<close>

definition round_robin :: "int \<Rightarrow> int list \<Rightarrow> int list" where
  "round_robin remainder subset_lengths =
     fold (\<lambda>i ls. ls[i mod length ls := ls ! (i mod length ls) + 1])
       [0..<nat remainder] subset_lengths"

definition fraction_lengths :: "nat \<Rightarrow> int list \<Rightarrow> error + int list" where
  "fraction_lengths n lengths =
     (if list_ex (\<lambda>frac. frac < 0 \<or> 1 < frac) lengths then Inl ValueError
      else (let subset_lengths = map (\<lambda>frac. int n * frac) lengths;
                remainder = int n - sum_list subset_lengths
            in Inr (round_robin remainder subset_lengths)))"

definition random_split ::
  "(nat \<Rightarrow> nat list) \<Rightarrow> 'v ContactPoint_Dataset \<Rightarrow> int list \<Rightarrow> error + 'v Subset list" where
  "random_split perm dataset lengths0 =
     (case (if sum_list lengths0 = 1 then fraction_lengths (dataset_len dataset) lengths0
            else Inr lengths0) of
        Inl e \<Rightarrow> Inl e
      | Inr lengths \<Rightarrow>
          if sum_list lengths = int (dataset_len dataset)
          then (let idxs = perm (nat (sum_list lengths))
                in Inr (map (\<lambda>(offset, len).
                              \<lparr>sub_dataset = dataset, indices = py_slice (offset - len) offset idxs\<rparr>)
                          (zip (accumulate 0 lengths) lengths)))
          else Inl ValueError)"

text \<open>
  \<^verbatim>\<open>DataLoader(dataset, batch_size, num_workers, pin_memory, shuffle, drop_last)\<close>: the
  arguments as the data module passes them.
\<close>

record 'v DataLoader =
  dl_dataset :: "'v Subset option"
  dl_batch_size :: int
  dl_num_workers :: int
  dl_pin_memory :: bool
  dl_shuffle :: bool
  dl_drop_last :: bool

text \<open>
  The batch sampler: consecutive groups of \<open>b\<close> positions of the sampler's order; the last
  group, when it has fewer than \<open>b\<close>, is dropped with \<open>drop_last\<close> and yielded without.
\<close>

function batches :: "nat \<Rightarrow> bool \<Rightarrow> 'a list \<Rightarrow> 'a list list" where
  "batches b drop_last xs =
     (if b = 0 then []
      else if length xs < b then (if drop_last \<or> xs = [] then [] else [xs])
      else take b xs # batches b drop_last (drop b xs))"
  by pat_completeness auto
termination
  by (relation "measure (\<lambda>(b, drop_last, xs). length xs)") auto

declare batches.simps [simp del]

text \<open>
  One epoch of a loader, as the batches it yields, each batch the dataset indices of its
  samples in order (the sample of an index is \<open>dataset_getitem\<close> there; a batch stacks the
  input tensors and the output tensors of its samples). With \<open>shuffle\<close> the sampler is a
  \<^verbatim>\<open>RandomSampler\<close>, which rejects an empty data source when it is built
  (\<^verbatim>\<open>num_samples should be a positive integer value\<close>) and draws a fresh permutation of the
  positions in every epoch, the parameter \<open>epoch_perm\<close>; without, the positions come in
  order. The loader first rejects a negative \<^verbatim>\<open>num_workers\<close>
  (\<^verbatim>\<open>num_workers option should be non-negative\<close>); the batch sampler, built after the
  sampler, rejects a batch size that is not positive. Over \<^verbatim>\<open>None\<close> (no setup yet) \<^verbatim>\<open>len(None)\<close> is a TypeError, in the
  \<^verbatim>\<open>RandomSampler\<close> when the loader is built or else at the first iteration. The
  positions of \<open>epoch_perm\<close> are those of a permutation of \<open>0..<n\<close>.
\<close>

definition loader_epoch :: "nat list \<Rightarrow> 'v DataLoader \<Rightarrow> error + nat list list" where
  "loader_epoch epoch_perm dl =
     (if dl_num_workers dl < 0 then Inl ValueError
      else (case dl_dataset dl of
          None \<Rightarrow>
            if dl_shuffle dl \<or> 0 < dl_batch_size dl then Inl TypeError else Inl ValueError
        | Some d \<Rightarrow>
            if dl_shuffle dl \<and> subset_len d = 0 then Inl ValueError
            else if dl_batch_size dl \<le> 0 then Inl ValueError
            else (let order = (if dl_shuffle dl then epoch_perm else [0..<subset_len d])
                  in Inr (map (map (\<lambda>i. indices d ! i))
                            (batches (nat (dl_batch_size dl)) (dl_drop_last dl) order)))))"

section \<open>The data module (contactpoint_datamodule.py)\<close>

text \<open>
  The fields of a \<^verbatim>\<open>ContactPointDataModule\<close>: the saved constructor arguments
  (\<^verbatim>\<open>self.hparams\<close>), the dataset, the three subsets, the batch size per device, and the
  trainer that Lightning attaches (\<^verbatim>\<open>self.trainer\<close>, \<^verbatim>\<open>None\<close> without one).

  A ratio is a Python float: a finite double, an infinity or a NaN. The product of a ratio
  with the dataset length is computed in double arithmetic and rounded; the rounded
  product is the parameter \<open>fmul\<close> of setup (the length, less than \<open>2^63\<close>, always converts
  to a double). \<^verbatim>\<open>int(x)\<close> truncates a finite float toward zero and raises OverflowError
  on an infinity and ValueError on a NaN. \<open>rounded_product r n x\<close> says of a finite product
  \<open>x\<close> what rounding to nearest guarantees while the product is below \<open>2^53\<close>: \<open>x\<close> lies
  between the two integers next to the exact product.
\<close>

datatype pyfloat = Finite real | PosInf | NegInf | NaN

definition py_trunc :: "real \<Rightarrow> int" where
  "py_trunc v = (if 0 \<le> v then \<lfloor>v\<rfloor> else \<lceil>v\<rceil>)"

definition py_int :: "pyfloat \<Rightarrow> error + int" where
  "py_int x =
     (case x of
        Finite v \<Rightarrow> Inr (py_trunc v)
      | PosInf \<Rightarrow> Inl OverflowError
      | NegInf \<Rightarrow> Inl OverflowError
      | NaN \<Rightarrow> Inl ValueError)"

definition rounded_product :: "real \<Rightarrow> nat \<Rightarrow> real \<Rightarrow> bool" where
  "rounded_product r n x \<longleftrightarrow> of_int \<lfloor>r * real n\<rfloor> \<le> x \<and> x \<le> of_int \<lceil>r * real n\<rceil>"

record Trainer =
  world_size :: int

record 'v ContactPointDataModule =
  train_val_test_split_ratio :: "pyfloat \<times> pyfloat"
  batch_size :: int
  num_workers :: int
  pin_memory :: bool
  dataset :: "'v ContactPoint_Dataset"
  data_train :: "'v Subset option"
  data_val :: "'v Subset option"
  data_test :: "'v Subset option"
  batch_size_per_device :: int
  trainer :: "Trainer option"

text \<open>\<^verbatim>\<open>__init__\<close>: no subset yet, the batch size per device is the batch size, no trainer.\<close>

definition datamodule_init ::
  "'v ContactPoint_Dataset \<Rightarrow> pyfloat \<times> pyfloat \<Rightarrow> int \<Rightarrow> int \<Rightarrow> bool \<Rightarrow> 'v ContactPointDataModule" where
  "datamodule_init ds ratio b workers pin =
     \<lparr>train_val_test_split_ratio = ratio, batch_size = b, num_workers = workers,
      pin_memory = pin, dataset = ds, data_train = None, data_val = None, data_test = None,
      batch_size_per_device = b, trainer = None\<rparr>"

text \<open>\<^verbatim>\<open>str(i)\<close> of an integer is its decimal numeral.\<close>

fun str_nat :: "nat \<Rightarrow> string" where
  "str_nat n =
     (if n < 10 then [''0123456789'' ! n]
      else str_nat (n div 10) @ [''0123456789'' ! (n mod 10)])"

declare str_nat.simps [simp del]

definition str_int :: "int \<Rightarrow> string" where
  "str_int i = (if i < 0 then CHR ''-'' # str_nat (nat (- i)) else str_nat (nat i))"

text \<open>
  The first block of \<^verbatim>\<open>setup\<close>:
  \<^verbatim>\<open>
  if self.trainer is not None:
      if self.hparams.batch_size % self.trainer.world_size != 0:
          raise RuntimeError(
              f"Batch size ({self.hparams.batch_size}) is not divisible by the number of devices ({self.trainer.world_size})."
          )
      self.batch_size_per_device = self.hparams.batch_size // self.trainer.world_size
  \<close>
  Python's \<^verbatim>\<open>%\<close> and \<^verbatim>\<open>//\<close> on integers are \<open>mod\<close> and \<open>div\<close> of \<open>int\<close> (both round
  toward minus infinity), and raise ZeroDivisionError on a zero divisor.
\<close>

definition not_divisible_message :: "int \<Rightarrow> int \<Rightarrow> string" where
  "not_divisible_message b w =
     ''Batch size ('' @ str_int b @ '') is not divisible by the number of devices (''
       @ str_int w @ '').''"

definition divide_batch_size :: "'v ContactPointDataModule \<Rightarrow> error + 'v ContactPointDataModule" where
  "divide_batch_size self =
     (case trainer self of
        None \<Rightarrow> Inr self
      | Some t \<Rightarrow>
          if world_size t = 0 then Inl ZeroDivisionError
          else if batch_size self mod world_size t \<noteq> 0
          then Inl (RuntimeError (not_divisible_message (batch_size self) (world_size t)))
          else Inr (self\<lparr>batch_size_per_device := batch_size self div world_size t\<rparr>))"

text \<open>
  The second block of \<^verbatim>\<open>setup\<close>:
  \<^verbatim>\<open>
  if not self.data_train and not self.data_val and not self.data_test:
      dataset = self.dataset
      train_length = int(self.hparams.train_val_test_split_ratio[0] * len(dataset))
      val_length = int(self.hparams.train_val_test_split_ratio[1] * len(dataset))
      test_length = int(len(dataset) - train_length - val_length)
      self.data_train, self.data_val, self.data_test = random_split(
          dataset=dataset,
          lengths= (train_length, val_length, test_length),
          generator=torch.Generator().manual_seed(42),
      )
  \<close>
  The three lengths are local variables of \<^verbatim>\<open>setup\<close>; \<open>split_lengths\<close> computes them in the
  source's order, so that theorems can name them, and the split passes them on.
  \<open>randperm seed n\<close> is the permutation that \<^verbatim>\<open>torch.randperm(n)\<close> draws from a fresh
  generator seeded with \<open>seed\<close>. Unpacking a list that does not have three elements raises
  ValueError.
\<close>

definition split_lengths ::
  "(pyfloat \<Rightarrow> nat \<Rightarrow> pyfloat) \<Rightarrow> 'v ContactPointDataModule \<Rightarrow> error + (int \<times> int \<times> int)" where
  "split_lengths fmul self =
     (case py_int (fmul (fst (train_val_test_split_ratio self)) (dataset_len (dataset self))) of
        Inl e \<Rightarrow> Inl e
      | Inr train_length \<Rightarrow>
          (case py_int (fmul (snd (train_val_test_split_ratio self)) (dataset_len (dataset self))) of
             Inl e \<Rightarrow> Inl e
           | Inr val_length \<Rightarrow>
               Inr (train_length, val_length,
                    int (dataset_len (dataset self)) - train_length - val_length)))"

definition load_and_split ::
  "(pyfloat \<Rightarrow> nat \<Rightarrow> pyfloat) \<Rightarrow> (int \<Rightarrow> nat \<Rightarrow> nat list) \<Rightarrow>
   'v ContactPointDataModule \<Rightarrow> error + 'v ContactPointDataModule" where
  "load_and_split fmul randperm self =
     (if falsy (data_train self) \<and> falsy (data_val self) \<and> falsy (data_test self)
      then (case split_lengths fmul self of
              Inl e \<Rightarrow> Inl e
            | Inr (train_length, val_length, test_length) \<Rightarrow>
                (case random_split (randperm 42) (dataset self)
                        [train_length, val_length, test_length] of
                   Inl e \<Rightarrow> Inl e
                 | Inr subsets \<Rightarrow>
                     (case subsets of
                        [tr, va, te] \<Rightarrow>
                          Inr (self\<lparr>data_train := Some tr, data_val := Some va,
                                    data_test := Some te\<rparr>)
                      | _ \<Rightarrow> Inl ValueError)))
      else Inr self)"

text \<open>\<^verbatim>\<open>setup\<close> (the name is an Isabelle keyword): the two blocks in order.\<close>

definition setup_dm ::
  "(pyfloat \<Rightarrow> nat \<Rightarrow> pyfloat) \<Rightarrow> (int \<Rightarrow> nat \<Rightarrow> nat list) \<Rightarrow>
   'v ContactPointDataModule \<Rightarrow> error + 'v ContactPointDataModule" where
  "setup_dm fmul randperm self =
     (case divide_batch_size self of
        Inl e \<Rightarrow> Inl e
      | Inr self1 \<Rightarrow> load_and_split fmul randperm self1)"

text \<open>The three loaders: \<^verbatim>\<open>shuffle=True\<close> for train only, \<^verbatim>\<open>drop_last=True\<close> for all.\<close>

definition train_dataloader :: "'v ContactPointDataModule \<Rightarrow> 'v DataLoader" where
  "train_dataloader self =
     \<lparr>dl_dataset = data_train self, dl_batch_size = batch_size_per_device self,
      dl_num_workers = num_workers self, dl_pin_memory = pin_memory self,
      dl_shuffle = True, dl_drop_last = True\<rparr>"

definition val_dataloader :: "'v ContactPointDataModule \<Rightarrow> 'v DataLoader" where
  "val_dataloader self =
     \<lparr>dl_dataset = data_val self, dl_batch_size = batch_size_per_device self,
      dl_num_workers = num_workers self, dl_pin_memory = pin_memory self,
      dl_shuffle = False, dl_drop_last = True\<rparr>"

definition test_dataloader :: "'v ContactPointDataModule \<Rightarrow> 'v DataLoader" where
  "test_dataloader self =
     \<lparr>dl_dataset = data_test self, dl_batch_size = batch_size_per_device self,
      dl_num_workers = num_workers self, dl_pin_memory = pin_memory self,
      dl_shuffle = False, dl_drop_last = True\<rparr>"

section \<open>Example data modules\<close>

text \<open>
  Datasets of \<open>n\<close> rows and four columns, and data modules over them as \<^verbatim>\<open>__init__\<close> builds
  them. Two stand-ins for the generator's permutation (the reversal and the identity) and
  one for the double product: \<open>exact_mul\<close> is the product without rounding, which is the
  double product where that is exact and has its integer part in every example below.
\<close>

definition zero_dataset :: "nat \<Rightarrow> int ContactPoint_Dataset" where
  "zero_dataset n = dataset_init keep \<lparr>arr_dtype = Float32, arr_rows = replicate n [0, 0, 0, 0]\<rparr>"

definition rev_perm :: "int \<Rightarrow> nat \<Rightarrow> nat list" where
  "rev_perm seed n = rev [0..<n]"

definition id_perm :: "int \<Rightarrow> nat \<Rightarrow> nat list" where
  "id_perm seed n = [0..<n]"

definition exact_mul :: "pyfloat \<Rightarrow> nat \<Rightarrow> pyfloat" where
  "exact_mul r n =
     (case r of
        Finite x \<Rightarrow> Finite (x * real n)
      | PosInf \<Rightarrow> (if n = 0 then NaN else PosInf)
      | NegInf \<Rightarrow> (if n = 0 then NaN else NegInf)
      | NaN \<Rightarrow> NaN)"



definition dm_a :: "int ContactPointDataModule" where
  "dm_a = datamodule_init (zero_dataset 4) (Finite (1 / 2), Finite (1 / 4)) 128 4 False"

definition dm_b :: "int ContactPointDataModule" where
  "dm_b = (datamodule_init (zero_dataset 4) (Finite (1 / 2), Finite (1 / 4)) 64 0 True)
            \<lparr>trainer := Some \<lparr>world_size = 2\<rparr>\<rparr>"

definition split_4 :: "int ContactPointDataModule \<Rightarrow> int ContactPointDataModule" where
  "split_4 m = m\<lparr>data_train := Some \<lparr>sub_dataset = zero_dataset 4, indices = [3, 2]\<rparr>,
                 data_val := Some \<lparr>sub_dataset = zero_dataset 4, indices = [1]\<rparr>,
                 data_test := Some \<lparr>sub_dataset = zero_dataset 4, indices = [0]\<rparr>\<rparr>"

definition dm_100_3 :: "int ContactPointDataModule" where
  "dm_100_3 = (datamodule_init (zero_dataset 4) (Finite (1 / 2), Finite (1 / 4)) 100 4 False)
                \<lparr>trainer := Some \<lparr>world_size = 3\<rparr>\<rparr>"



definition dm_2000 :: "int ContactPointDataModule" where
  "dm_2000 = datamodule_init (zero_dataset 2000) (Finite (1 / 2), Finite (1 / 4)) 64 4 False"

definition dm_2000_split :: "int ContactPointDataModule" where
  "dm_2000_split =
     dm_2000\<lparr>data_train := Some \<lparr>sub_dataset = zero_dataset 2000, indices = [0..<1000]\<rparr>,
              data_val := Some \<lparr>sub_dataset = zero_dataset 2000, indices = [1000..<1500]\<rparr>,
              data_test := Some \<lparr>sub_dataset = zero_dataset 2000, indices = [1500..<2000]\<rparr>\<rparr>"

definition dm_one :: "int ContactPointDataModule" where
  "dm_one = datamodule_init (zero_dataset 1) (Finite (1 / 2), Finite (1 / 5)) 128 4 False"

definition dm_one_split :: "int ContactPointDataModule" where
  "dm_one_split =
     dm_one\<lparr>data_train := Some \<lparr>sub_dataset = zero_dataset 1, indices = []\<rparr>,
             data_val := Some \<lparr>sub_dataset = zero_dataset 1, indices = []\<rparr>,
             data_test := Some \<lparr>sub_dataset = zero_dataset 1, indices = [0]\<rparr>\<rparr>"



section \<open>Slices\<close>

lemma py_slice_head: "py_slice 0 (- 3) xs = take (length xs - 3) xs"
  by (simp add: py_slice_def slice_index_def nat_diff_distrib')

lemma length_py_slice_tail:
  "length (py_slice (- 3) (int n) xs) = min n (length xs) - (length xs - 3)"
  by (auto simp add: py_slice_def slice_index_def Let_def nat_diff_distrib')

lemma py_slice_tail_enough_rows:
  "length xs \<le> n \<Longrightarrow> py_slice (- 3) (int n) xs = drop (length xs - 3) xs"
  by (auto simp add: py_slice_def slice_index_def Let_def nat_diff_distrib')

section \<open>The dataset wrapper: length and indexed access\<close>

lemma dataset_len_init: "dataset_len (dataset_init cast a) = len_arr a"
  by (simp add: dataset_len_def dataset_init_def len_arr_def slice_cols_def astype_def)

text \<open>
  What \<open>dataset_getitem\<close> returns on a loaded dataset, for every index: an IndexError
  outside \<open>[-N, N)\<close>, and otherwise the two column slices of the converted row.
\<close>

lemma getitem_init:
  "dataset_getitem (dataset_init cast a) i =
     (if i < - int (len_arr a) \<or> int (len_arr a) \<le> i then Inl IndexError
      else Inr (\<lparr>t_dtype = Float32,
                 t_data = py_slice 0 (- 3) (map (cast (arr_dtype a) Float32) (row_at a i))\<rparr>,
                \<lparr>t_dtype = Float32,
                 t_data = py_slice (- 3) (int (len_arr a))
                            (map (cast (arr_dtype a) Float32) (row_at a i))\<rparr>))"
proof (cases "i < - int (len_arr a) \<or> int (len_arr a) \<le> i")
  case True
  then show ?thesis
    by (simp add: dataset_getitem_def dataset_init_def index_row_def len_arr_def
        slice_cols_def astype_def)
next
  case False
  then have k: "i < 0 \<Longrightarrow> nat (i + int (length (arr_rows a))) < length (arr_rows a)"
    "\<not> i < 0 \<Longrightarrow> nat i < length (arr_rows a)"
    by (auto simp add: len_arr_def)
  from False k show ?thesis
    by (simp add: dataset_getitem_def dataset_init_def index_row_def len_arr_def
        slice_cols_def astype_def from_numpy_def row_at_def Let_def)
qed

lemma row_at_length:
  assumes "has_columns D a" "- int (len_arr a) \<le> i" "i < int (len_arr a)"
  shows "length (row_at a i) = D"
proof -
  have "nat (if i < 0 then i + int (len_arr a) else i) < length (arr_rows a)"
    using assms(2,3) by (auto simp add: len_arr_def)
  then have "row_at a i \<in> set (arr_rows a)"
    unfolding row_at_def by (rule nth_mem)
  with assms(1) show ?thesis
    by (simp add: has_columns_def list_all_iff)
qed

text \<open>
  With at least as many rows as columns (\<open>D \<le> N\<close>) the stop \<^verbatim>\<open>len(data[:,])\<close> of the output
  slice is past the last column, and the pair is the first \<open>D - 3\<close> and the last 3 columns
  of the row.
\<close>

lemma getitem_enough_rows:
  assumes "has_columns D a" "D \<le> len_arr a" "0 \<le> i" "i < int (len_arr a)"
  shows "dataset_getitem (dataset_init cast a) i =
           Inr (\<lparr>t_dtype = Float32,
                 t_data = take (D - 3) (map (cast (arr_dtype a) Float32) (arr_rows a ! nat i))\<rparr>,
                \<lparr>t_dtype = Float32,
                 t_data = drop (D - 3) (map (cast (arr_dtype a) Float32) (arr_rows a ! nat i))\<rparr>)"
proof -
  have len: "length (row_at a i) = D"
    using assms by (intro row_at_length) auto
  have r: "row_at a i = arr_rows a ! nat i"
    using assms(3) by (simp add: row_at_def)
  show ?thesis
    using assms len r
    by (simp add: getitem_init py_slice_head py_slice_tail_enough_rows)
qed

text \<open>
  The widths in general: the input has \<open>D - 3\<close> columns, the output has
  \<open>min N D - (D - 3)\<close>, which is 3 only when \<open>3 \<le> D \<le> N\<close>.
\<close>

lemma getitem_widths:
  assumes "has_columns D a" "dataset_getitem (dataset_init cast a) i = Inr (x, y)"
  shows "length (t_data x) = D - 3 \<and> length (t_data y) = min (len_arr a) D - (D - 3)"
proof -
  from assms(2) have range: "- int (len_arr a) \<le> i" "i < int (len_arr a)"
    by (auto simp add: getitem_init split: if_splits)
  with assms(1) have len: "length (row_at a i) = D"
    by (rule row_at_length)
  from assms(2) range len show ?thesis
    by (auto simp add: getitem_init py_slice_head length_py_slice_tail)
qed

text \<open>
  Claim C1 (every \<open>dataset[i]\<close> is the first \<open>D - 3\<close> and the last 3 columns of row \<open>i\<close>),
  at a source array of 2 rows and 5 columns: the output of row 0 is empty, where the last
  3 columns are \<open>[3, 4, 5]\<close>. The column slice stops at the number of rows.
\<close>

theorem getitem_output_2x5:
  "dataset_getitem (dataset_init keep rows_2x5) 0 =
     Inr (\<lparr>t_dtype = Float32, t_data = [1, 2]\<rparr>, \<lparr>t_dtype = Float32, t_data = []\<rparr>)"
  by (simp add: rows_2x5_def keep_def dataset_getitem_def dataset_init_def astype_def
      slice_cols_def index_row_def len_arr_def from_numpy_def py_slice_def slice_index_def)

text \<open>
  Claim C8 (the length is \<open>N\<close>, every input has width \<open>D - 3\<close>, every output has width 3),
  at a source array of 3 rows and 4 columns: the length is 3 and the input has width 1,
  but the output of row 0 has width 2, without the last column.
\<close>

theorem output_width_3x4:
  "dataset_len (dataset_init keep rows_3x4) = 3 \<and>
   dataset_getitem (dataset_init keep rows_3x4) 0 =
     Inr (\<lparr>t_dtype = Float32, t_data = [1]\<rparr>, \<lparr>t_dtype = Float32, t_data = [2, 3]\<rparr>)"
  by (simp add: rows_3x4_def keep_def dataset_len_def dataset_getitem_def dataset_init_def
      astype_def slice_cols_def index_row_def len_arr_def from_numpy_def py_slice_def
      slice_index_def)

text \<open>
  Claim C6 as stated (indexed access fails for every index outside \<open>[0, N)\<close>) is false: on
  four rows the index \<open>-1\<close> returns the last row.
\<close>

theorem getitem_minus_one_succeeds:
  "dataset_getitem (dataset_init keep rows_4x4) (- 1) =
     Inr (\<lparr>t_dtype = Float32, t_data = [13]\<rparr>, \<lparr>t_dtype = Float32, t_data = [14, 15, 16]\<rparr>)"
  by (simp add: rows_4x4_def keep_def dataset_getitem_def dataset_init_def astype_def
      slice_cols_def index_row_def len_arr_def from_numpy_def py_slice_def slice_index_def)

text \<open>
  Claim C6, amended: for a dataset of \<open>N\<close> rows, indexed access fails with an IndexError
  exactly for the indices outside \<open>[-N, N)\<close> and returns a pair exactly for the indices in
  \<open>[-N, N)\<close>, so for every index in \<open>[0, N)\<close>; an index \<open>i\<close> in \<open>[-N, 0)\<close> returns what
  \<open>N + i\<close> returns.
\<close>

theorem getitem_index_range:
  "(dataset_getitem (dataset_init cast a) i = Inl IndexError) =
     (i < - int (len_arr a) \<or> int (len_arr a) \<le> i) \<and>
   (\<exists>x y. dataset_getitem (dataset_init cast a) i = Inr (x, y)) =
     (- int (len_arr a) \<le> i \<and> i < int (len_arr a)) \<and>
   dataset_getitem (dataset_init cast a) i =
     dataset_getitem (dataset_init cast a)
       (if - int (len_arr a) \<le> i \<and> i < 0 then i + int (len_arr a) else i)"
  by (auto simp add: getitem_init row_at_def)



section \<open>random_split on three lengths\<close>


lemma round_robin_zero: "round_robin 0 ls = ls"
  by (simp add: round_robin_def)

lemma fraction_lengths_unit:
  assumes "l0 + l1 + l2 = (1::int)"
  shows "fraction_lengths (Suc 0) [l0, l1, l2] =
           (if l0 < 0 \<or> 1 < l0 \<or> l1 < 0 \<or> 1 < l1 \<or> l2 < 0 \<or> 1 < l2 then Inl ValueError
            else Inr [l0, l1, l2])"
proof -
  have r: "int (Suc 0) - sum_list (map (\<lambda>frac. int (Suc 0) * frac) [l0, l1, l2]) = 0"
    using assms by simp
  show ?thesis
    unfolding fraction_lengths_def Let_def r round_robin_zero
    by auto
qed

lemma random_split3:
  assumes "l0 + l1 + l2 = int (dataset_len ds)"
  shows "random_split perm ds [l0, l1, l2] =
           (if dataset_len ds = 1 \<and> (l0 < 0 \<or> 1 < l0 \<or> l1 < 0 \<or> 1 < l1 \<or> l2 < 0 \<or> 1 < l2)
            then Inl ValueError
            else Inr [\<lparr>sub_dataset = ds, indices = py_slice 0 l0 (perm (dataset_len ds))\<rparr>,
                      \<lparr>sub_dataset = ds, indices = py_slice l0 (l0 + l1) (perm (dataset_len ds))\<rparr>,
                      \<lparr>sub_dataset = ds,
                       indices = py_slice (l0 + l1) (int (dataset_len ds)) (perm (dataset_len ds))\<rparr>])"
proof -
  have t: "int (dataset_len ds) - l2 = l0 + l1"
    using assms by simp
  show ?thesis
  proof (cases "dataset_len ds = 1")
    case True
    with assms have s: "l0 + l1 + l2 = 1" by simp
    from t True have t1: "1 - l2 = l0 + l1" by simp
    show ?thesis
      using s by (simp add: random_split_def True fraction_lengths_unit add.assoc Let_def t1)
  next
    case False
    with assms have "sum_list [l0, l1, l2] \<noteq> 1" by simp
    then show ?thesis
      using assms False by (simp add: random_split_def add.assoc Let_def t)
  qed
qed



lemma slice_index_le: "slice_index k n \<le> n"
  by (auto simp add: slice_index_def)

lemma slice_index_full: "slice_index (int n) n = n"
  by (simp add: slice_index_def)


section \<open>The lengths of the split\<close>







lemma split_lengths_sum:
  assumes "split_lengths fmul m = Inr (l0, l1, l2)"
  shows "l0 + l1 + l2 = int (dataset_len (dataset m))"
  using assms by (auto simp add: split_lengths_def split: sum.splits)

lemma split_lengths_cong:
  assumes "train_val_test_split_ratio m = train_val_test_split_ratio m'" "dataset m = dataset m'"
  shows "split_lengths fmul m = split_lengths fmul m'"
  unfolding split_lengths_def assms by (rule refl)

text \<open>
  A product that overflows to an infinity makes \<^verbatim>\<open>int\<close> raise OverflowError, and a NaN
  makes it raise ValueError, before anything is split.
\<close>

lemma split_lengths_not_finite:
  assumes "fmul (fst (train_val_test_split_ratio m)) (dataset_len (dataset m)) = PosInf \<or>
           fmul (fst (train_val_test_split_ratio m)) (dataset_len (dataset m)) = NegInf"
  shows "split_lengths fmul m = Inl OverflowError"
  using assms by (auto simp add: split_lengths_def py_int_def)

section \<open>The two blocks of setup\<close>

lemma divide_batch_size_fields:
  assumes "divide_batch_size m = Inr m1"
  shows "m1 = m\<lparr>batch_size_per_device := batch_size_per_device m1\<rparr>"
  using assms by (auto simp add: divide_batch_size_def split: option.splits if_splits)

lemma divide_batch_size_cases:
  assumes "divide_batch_size m = Inr m1"
  obtains (no_trainer) "trainer m = None" "m1 = m"
  | (divisible) t where "trainer m = Some t" "world_size t \<noteq> 0"
      "batch_size m mod world_size t = 0"
      "m1 = m\<lparr>batch_size_per_device := batch_size m div world_size t\<rparr>"
  using assms by (auto simp add: divide_batch_size_def split: option.splits if_splits)

lemma divide_batch_size_again:
  assumes "divide_batch_size m = Inr m1"
  shows "divide_batch_size m1 = Inr m1"
    and "divide_batch_size (m1\<lparr>data_train := a, data_val := b, data_test := c\<rparr>) =
           Inr (m1\<lparr>data_train := a, data_val := b, data_test := c\<rparr>)"
  using assms by (cases rule: divide_batch_size_cases; simp add: divide_batch_size_def)+

lemma load_and_split_fresh:
  assumes "falsy (data_train m)" "falsy (data_val m)" "falsy (data_test m)"
    and "split_lengths fmul m = Inr (l0, l1, l2)"
  shows "load_and_split fmul rp m =
     (if dataset_len (dataset m) = 1 \<and>
         (l0 < 0 \<or> 1 < l0 \<or> l1 < 0 \<or> 1 < l1 \<or> l2 < 0 \<or> 1 < l2)
      then Inl ValueError
      else Inr (m\<lparr>data_train := Some \<lparr>sub_dataset = dataset m,
                    indices = py_slice 0 l0 (rp 42 (dataset_len (dataset m)))\<rparr>,
                  data_val := Some \<lparr>sub_dataset = dataset m,
                    indices = py_slice l0 (l0 + l1) (rp 42 (dataset_len (dataset m)))\<rparr>,
                  data_test := Some \<lparr>sub_dataset = dataset m,
                    indices = py_slice (l0 + l1) (int (dataset_len (dataset m)))
                                (rp 42 (dataset_len (dataset m)))\<rparr>\<rparr>))"
  using assms by (simp add: load_and_split_def random_split3 [OF split_lengths_sum [OF assms(4)]])

lemma load_and_split_error:
  assumes "falsy (data_train m)" "falsy (data_val m)" "falsy (data_test m)"
    and "split_lengths fmul m = Inl e"
  shows "load_and_split fmul rp m = Inl e"
  using assms by (simp add: load_and_split_def)

lemma load_and_split_loaded:
  assumes "\<not> (falsy (data_train m) \<and> falsy (data_val m) \<and> falsy (data_test m))"
  shows "load_and_split fmul rp m = Inr m"
  using assms by (auto simp add: load_and_split_def)

lemma setup_dm_divides:
  assumes "setup_dm fmul rp m = Inr m'"
  obtains m1 where "divide_batch_size m = Inr m1"
  using assms by (auto simp add: setup_dm_def split: sum.splits)

lemma divided_fields:
  assumes "divide_batch_size m = Inr m1"
  shows "data_train m1 = data_train m" "data_val m1 = data_val m" "data_test m1 = data_test m"
    "dataset m1 = dataset m" "train_val_test_split_ratio m1 = train_val_test_split_ratio m"
    "num_workers m1 = num_workers m"
  using assms by (cases rule: divide_batch_size_cases; simp)+

lemma setup_dm_fresh:
  assumes "divide_batch_size m = Inr m1"
    and "falsy (data_train m)" "falsy (data_val m)" "falsy (data_test m)"
    and "split_lengths fmul m = Inr (l0, l1, l2)"
  shows "setup_dm fmul rp m =
     (if dataset_len (dataset m) = 1 \<and>
         (l0 < 0 \<or> 1 < l0 \<or> l1 < 0 \<or> 1 < l1 \<or> l2 < 0 \<or> 1 < l2)
      then Inl ValueError
      else Inr (m1\<lparr>data_train := Some \<lparr>sub_dataset = dataset m,
                    indices = py_slice 0 l0 (rp 42 (dataset_len (dataset m)))\<rparr>,
                  data_val := Some \<lparr>sub_dataset = dataset m,
                    indices = py_slice l0 (l0 + l1) (rp 42 (dataset_len (dataset m)))\<rparr>,
                  data_test := Some \<lparr>sub_dataset = dataset m,
                    indices = py_slice (l0 + l1) (int (dataset_len (dataset m)))
                                (rp 42 (dataset_len (dataset m)))\<rparr>\<rparr>))"
proof -
  note f = divided_fields [OF assms(1)]
  have fresh: "falsy (data_train m1)" "falsy (data_val m1)" "falsy (data_test m1)"
    using assms(2-4) by (simp_all add: f)
  have lens: "split_lengths fmul m1 = Inr (l0, l1, l2)"
    using assms(5) split_lengths_cong [of m1 m fmul] by (simp add: f)
  show ?thesis
    using assms(1) by (simp add: setup_dm_def load_and_split_fresh [OF fresh lens] f)
qed

lemma setup_dm_error:
  assumes "divide_batch_size m = Inr m1"
    and "falsy (data_train m)" "falsy (data_val m)" "falsy (data_test m)"
    and "split_lengths fmul m = Inl e"
  shows "setup_dm fmul rp m = Inl e"
proof -
  note f = divided_fields [OF assms(1)]
  have fresh: "falsy (data_train m1)" "falsy (data_val m1)" "falsy (data_test m1)"
    using assms(2-4) by (simp_all add: f)
  have lens: "split_lengths fmul m1 = Inl e"
    using assms(5) split_lengths_cong [of m1 m fmul] by (simp add: f)
  show ?thesis
    using assms(1) by (simp add: setup_dm_def load_and_split_error [OF fresh lens])
qed

text \<open>
  The overflow path: with a first product that is an infinity (a ratio such as \<open>1e308\<close> on
  a hundred samples), a first setup raises OverflowError.
\<close>

lemma setup_dm_overflow:
  assumes "divide_batch_size m = Inr m1"
    and "falsy (data_train m)" "falsy (data_val m)" "falsy (data_test m)"
    and "fmul (fst (train_val_test_split_ratio m)) (dataset_len (dataset m)) = PosInf \<or>
         fmul (fst (train_val_test_split_ratio m)) (dataset_len (dataset m)) = NegInf"
  shows "setup_dm fmul rp m = Inl OverflowError"
  using assms(1-4) split_lengths_not_finite [of fmul m, OF assms(5)] by (rule setup_dm_error)

text \<open>
  The guard: a module with a subset that is not empty is left as it is by the second
  block, whatever its subsets hold, so setup is then the batch size check alone.
\<close>

lemma setup_dm_loaded:
  assumes "\<not> (falsy (data_train m) \<and> falsy (data_val m) \<and> falsy (data_test m))"
  shows "setup_dm fmul rp m = divide_batch_size m"
proof (cases "divide_batch_size m")
  case (Inl e)
  then show ?thesis
    by (simp add: setup_dm_def)
next
  case (Inr m1)
  note f = divided_fields [OF Inr]
  have "\<not> (falsy (data_train m1) \<and> falsy (data_val m1) \<and> falsy (data_test m1))"
    using assms by (simp add: f)
  with Inr show ?thesis
    by (simp add: setup_dm_def load_and_split_loaded)
qed


section \<open>The example modules\<close>

lemma dataset_len_zero [simp]: "dataset_len (zero_dataset n) = n"
  by (simp add: zero_dataset_def dataset_len_init len_arr_def)

lemma init_fields [simp]:
  "train_val_test_split_ratio (datamodule_init ds r b w p) = r"
  "batch_size (datamodule_init ds r b w p) = b"
  "dataset (datamodule_init ds r b w p) = ds"
  "data_train (datamodule_init ds r b w p) = None"
  "data_val (datamodule_init ds r b w p) = None"
  "data_test (datamodule_init ds r b w p) = None"
  "batch_size_per_device (datamodule_init ds r b w p) = b"
  "trainer (datamodule_init ds r b w p) = None"
  by (simp_all add: datamodule_init_def)

lemma divide_init [simp]:
  "divide_batch_size (datamodule_init ds r b w p) = Inr (datamodule_init ds r b w p)"
  by (simp add: divide_batch_size_def)

lemma falsy_None [simp]: "falsy None"
  by (simp add: falsy_def)



lemma rev_perm_4: "rev_perm seed 4 = [3, 2, 1, 0]"
  unfolding rev_perm_def by code_simp



lemma exact_mul_rounded: "rounded_product r n (r * real n)"
  by (simp add: rounded_product_def)

lemma setup_dm_a: "setup_dm exact_mul rev_perm dm_a = Inr (split_4 dm_a)"
proof -
  have lens: "split_lengths exact_mul dm_a = Inr (2, 1, 1)"
    by (simp add: dm_a_def split_lengths_def py_int_def py_trunc_def exact_mul_def)
  have f: "falsy (data_train dm_a)" "falsy (data_val dm_a)" "falsy (data_test dm_a)"
    "divide_batch_size dm_a = Inr (dm_a)"
    by (simp_all add: dm_a_def)
  have n: "dataset dm_a = zero_dataset 4"
    by (simp add: dm_a_def)
  show ?thesis
    unfolding setup_dm_fresh [OF f(4) f(1-3) lens] n dataset_len_zero rev_perm_4 split_4_def
    by (simp add: py_slice_def slice_index_def)
qed

lemma setup_dm_b: "setup_dm exact_mul rev_perm dm_b = Inr (split_4 (dm_b\<lparr>batch_size_per_device := 32\<rparr>))"
proof -
  have lens: "split_lengths exact_mul dm_b = Inr (2, 1, 1)"
    by (simp add: dm_b_def split_lengths_def py_int_def py_trunc_def exact_mul_def)
  have f: "falsy (data_train dm_b)" "falsy (data_val dm_b)" "falsy (data_test dm_b)"
    "divide_batch_size dm_b = Inr (dm_b\<lparr>batch_size_per_device := 32\<rparr>)"
    by (simp_all add: dm_b_def divide_batch_size_def)
  have n: "dataset dm_b = zero_dataset 4"
    by (simp add: dm_b_def)
  show ?thesis
    unfolding setup_dm_fresh [OF f(4) f(1-3) lens] n dataset_len_zero rev_perm_4 split_4_def
    by (simp add: py_slice_def slice_index_def)
qed

section \<open>The split of setup\<close>





text \<open>
  Claim C3: two modules with equal datasets and equal ratios and no subset yet, whatever
  their batch sizes, worker counts and trainers, get the same three subsets from setup:
  the permutation is drawn from a generator seeded with 42 inside setup.
\<close>

theorem setup_same_split:
  assumes same: "dataset m1 = dataset m2"
      "train_val_test_split_ratio m1 = train_val_test_split_ratio m2"
    and fresh1: "falsy (data_train m1)" "falsy (data_val m1)" "falsy (data_test m1)"
    and fresh2: "falsy (data_train m2)" "falsy (data_val m2)" "falsy (data_test m2)"
    and run1: "setup_dm fmul randperm m1 = Inr m1'"
    and run2: "setup_dm fmul randperm m2 = Inr m2'"
  shows "data_train m1' = data_train m2' \<and> data_val m1' = data_val m2' \<and>
         data_test m1' = data_test m2'"
proof -
  from run1 obtain a where a: "divide_batch_size m1 = Inr a"
    by (rule setup_dm_divides)
  from run2 obtain b where b: "divide_batch_size m2 = Inr b"
    by (rule setup_dm_divides)
  have eq: "split_lengths fmul m1 = split_lengths fmul m2"
    using same(2,1) by (rule split_lengths_cong)
  show ?thesis
  proof (cases "split_lengths fmul m1")
    case (Inl e)
    with run1 setup_dm_error [OF a fresh1 Inl] show ?thesis
      by simp
  next
    case (Inr ls)
    obtain l0 l1 l2 where ls: "ls = (l0, l1, l2)"
      by (cases ls)
    have lens1: "split_lengths fmul m1 = Inr (l0, l1, l2)"
      using Inr ls by simp
    have lens2: "split_lengths fmul m2 = Inr (l0, l1, l2)"
      using lens1 eq by simp
    from run1 run2 show ?thesis
      unfolding setup_dm_fresh [OF a fresh1 lens1] setup_dm_fresh [OF b fresh2 lens2] same(1)
      by (auto split: if_splits)
  qed
qed

theorem setup_same_split_witness:
  "setup_dm exact_mul rev_perm dm_a = Inr (split_4 dm_a) \<and>
   setup_dm exact_mul rev_perm dm_b = Inr (split_4 (dm_b\<lparr>batch_size_per_device := 32\<rparr>)) \<and>
   batch_size dm_a \<noteq> batch_size dm_b \<and> trainer dm_a \<noteq> trainer dm_b \<and>
   data_train (split_4 dm_a) = data_train (split_4 (dm_b\<lparr>batch_size_per_device := 32\<rparr>)) \<and>
   data_val (split_4 dm_a) = data_val (split_4 (dm_b\<lparr>batch_size_per_device := 32\<rparr>)) \<and>
   data_test (split_4 dm_a) = data_test (split_4 (dm_b\<lparr>batch_size_per_device := 32\<rparr>))"
proof -
  have h: "dataset dm_a = dataset dm_b"
    "train_val_test_split_ratio dm_a = train_val_test_split_ratio dm_b"
    "falsy (data_train dm_a)" "falsy (data_val dm_a)" "falsy (data_test dm_a)"
    "falsy (data_train dm_b)" "falsy (data_val dm_b)" "falsy (data_test dm_b)"
    by (simp_all add: dm_a_def dm_b_def)
  have d: "batch_size dm_a \<noteq> batch_size dm_b" "trainer dm_a \<noteq> trainer dm_b"
    by (simp_all add: dm_a_def dm_b_def)
  from setup_same_split [OF h setup_dm_a setup_dm_b] setup_dm_a setup_dm_b d
  show ?thesis
    by blast
qed

section \<open>The batch size check\<close>

lemma str_int_examples:
  "str_int 100 = ''100''" "str_int 3 = ''3''"
  by (simp_all add: str_int_def str_nat.simps)

text \<open>
  Claim C4: with a trainer of a non-zero device count, a batch size that the device count
  does not divide makes setup raise the RuntimeError with the two numbers in its message;
  no module is returned, so nothing is split and nothing adjusted. A batch size that it
  divides makes setup go on to the split with the batch size per device set to the
  quotient, which every module that setup returns then holds.
\<close>

theorem setup_batch_size_check:
  assumes "trainer m = Some t" "world_size t \<noteq> 0"
  shows "(batch_size m mod world_size t \<noteq> 0 \<longrightarrow>
            setup_dm fmul rp m =
              Inl (RuntimeError (not_divisible_message (batch_size m) (world_size t)))) \<and>
         (batch_size m mod world_size t = 0 \<longrightarrow>
            setup_dm fmul rp m =
              load_and_split fmul rp (m\<lparr>batch_size_per_device := batch_size m div world_size t\<rparr>) \<and>
            (\<forall>m'. setup_dm fmul rp m = Inr m' \<longrightarrow>
               batch_size_per_device m' = batch_size m div world_size t))"
proof (cases "batch_size m mod world_size t = 0")
  case False
  with assms show ?thesis
    by (simp add: setup_dm_def divide_batch_size_def)
next
  case True
  with assms have d: "divide_batch_size m =
      Inr (m\<lparr>batch_size_per_device := batch_size m div world_size t\<rparr>)"
    by (simp add: divide_batch_size_def)
  then have run: "setup_dm fmul rp m =
      load_and_split fmul rp (m\<lparr>batch_size_per_device := batch_size m div world_size t\<rparr>)"
    by (simp add: setup_dm_def)
  have "batch_size_per_device m' = batch_size m div world_size t"
    if "setup_dm fmul rp m = Inr m'" for m'
    using that unfolding run
    by (auto simp add: load_and_split_def split: if_splits sum.splits list.splits)
  with True run show ?thesis
    by simp
qed

theorem setup_batch_size_check_witness:
  "setup_dm exact_mul rev_perm dm_100_3 =
     Inl (RuntimeError ''Batch size (100) is not divisible by the number of devices (3).'') \<and>
   setup_dm exact_mul rev_perm dm_b = Inr (split_4 (dm_b\<lparr>batch_size_per_device := 32\<rparr>)) \<and>
   batch_size dm_b = 64 \<and> trainer dm_b = Some \<lparr>world_size = 2\<rparr> \<and>
   batch_size_per_device (split_4 (dm_b\<lparr>batch_size_per_device := 32\<rparr>)) = 64 div 2"
proof -
  have a: "trainer dm_100_3 = Some \<lparr>world_size = 3\<rparr>" "world_size \<lparr>world_size = 3\<rparr> \<noteq> 0"
    "batch_size dm_100_3 = 100" "(100::int) mod 3 \<noteq> 0"
    by (simp_all add: dm_100_3_def)
  have b: "trainer dm_b = Some \<lparr>world_size = 2\<rparr>" "world_size \<lparr>world_size = 2\<rparr> \<noteq> 0"
    "batch_size dm_b = 64" "(64::int) mod 2 = 0"
    by (simp_all add: dm_b_def)
  have msg: "not_divisible_message 100 3 =
      ''Batch size (100) is not divisible by the number of devices (3).''"
    by (simp add: not_divisible_message_def str_int_examples)
  from setup_batch_size_check [OF a(1,2), of exact_mul rev_perm] a(3,4) msg
  have first: "setup_dm exact_mul rev_perm dm_100_3 =
     Inl (RuntimeError ''Batch size (100) is not divisible by the number of devices (3).'')"
    by simp
  from setup_batch_size_check [OF b(1,2), of exact_mul rev_perm] b(3,4) setup_dm_b
  have second: "batch_size_per_device (split_4 (dm_b\<lparr>batch_size_per_device := 32\<rparr>)) = 64 div 2"
    by simp
  from first second setup_dm_b b show ?thesis
    by simp
qed


section \<open>Ratios over one\<close>





section \<open>Repeated setup\<close>

lemma slices_not_all_empty:
  assumes "length p = n" "0 < n"
  shows "py_slice 0 l0 p \<noteq> [] \<or> py_slice l0 (l0 + l1) p \<noteq> [] \<or>
         py_slice (l0 + l1) (int n) p \<noteq> []"
proof -
  define a where "a = slice_index l0 n"
  define b where "b = slice_index (l0 + l1) n"
  have ab: "a \<le> n" "b \<le> n"
    by (simp_all add: a_def b_def slice_index_le)
  have z: "slice_index 0 n = 0"
    by (simp add: slice_index_def)
  have "length (py_slice 0 l0 p) = a"
    using ab by (simp add: py_slice_def assms(1) z a_def [symmetric])
  moreover have "length (py_slice l0 (l0 + l1) p) = b - a"
    using ab by (simp add: py_slice_def assms(1) a_def [symmetric] b_def [symmetric] Let_def)
  moreover have "length (py_slice (l0 + l1) (int n) p) = n - b"
    using ab by (simp add: py_slice_def assms(1) slice_index_full b_def [symmetric] Let_def)
  ultimately have "length (py_slice 0 l0 p) + length (py_slice l0 (l0 + l1) p) +
      length (py_slice (l0 + l1) (int n) p) \<ge> n \<or> b < a"
    by linarith
  moreover have "length (py_slice 0 l0 p) = a" by fact
  ultimately show ?thesis
    using assms(2) by (cases "b < a") auto
qed

text \<open>
  Where the claim holds: after a setup over a dataset that is not empty some subset is
  not empty, and every later setup, whatever the generator and the products would give,
  returns the module as it is.
\<close>

lemma second_setup_skips_split:
  assumes run: "setup_dm fmul rp m = Inr m'"
    and n: "0 < dataset_len (dataset m)"
    and p: "length (rp 42 (dataset_len (dataset m))) = dataset_len (dataset m)"
  shows "\<not> (falsy (data_train m') \<and> falsy (data_val m') \<and> falsy (data_test m'))"
    and "setup_dm fmul' rp' m' = Inr m'"
proof -
  from run obtain m1 where d: "divide_batch_size m = Inr m1"
    by (rule setup_dm_divides)
  note f = divided_fields [OF d]
  note again = divide_batch_size_again [OF d]
  have both: "\<not> (falsy (data_train m') \<and> falsy (data_val m') \<and> falsy (data_test m')) \<and>
              divide_batch_size m' = Inr m'"
  proof (cases "falsy (data_train m) \<and> falsy (data_val m) \<and> falsy (data_test m)")
    case False
    with run d have "m' = m1"
      by (simp add: setup_dm_loaded)
    with False again(1) show ?thesis
      by (simp add: f)
  next
    case True
    then have fresh: "falsy (data_train m)" "falsy (data_val m)" "falsy (data_test m)"
      by simp_all
    show ?thesis
    proof (cases "split_lengths fmul m")
      case (Inl e)
      with run setup_dm_error [OF d fresh Inl] show ?thesis
        by simp
    next
      case (Inr ls)
      obtain l0 l1 l2 where "ls = (l0, l1, l2)"
        by (cases ls)
      with Inr have lens: "split_lengths fmul m = Inr (l0, l1, l2)"
        by simp
      define tr where "tr = \<lparr>sub_dataset = dataset m,
          indices = py_slice 0 l0 (rp 42 (dataset_len (dataset m)))\<rparr>"
      define va where "va = \<lparr>sub_dataset = dataset m,
          indices = py_slice l0 (l0 + l1) (rp 42 (dataset_len (dataset m)))\<rparr>"
      define te where "te = \<lparr>sub_dataset = dataset m,
          indices = py_slice (l0 + l1) (int (dataset_len (dataset m)))
                      (rp 42 (dataset_len (dataset m)))\<rparr>"
      from run have m': "m' = m1\<lparr>data_train := Some tr, data_val := Some va, data_test := Some te\<rparr>"
        unfolding setup_dm_fresh [OF d fresh lens] tr_def va_def te_def
        by (simp split: if_splits)
      have "indices tr \<noteq> [] \<or> indices va \<noteq> [] \<or> indices te \<noteq> []"
        unfolding tr_def va_def te_def using slices_not_all_empty [OF p n, of l0 l1] by simp
      then have "\<not> (falsy (data_train m') \<and> falsy (data_val m') \<and> falsy (data_test m'))"
        by (auto simp add: m' falsy_def subset_len_def)
      moreover have "divide_batch_size m' = Inr m'"
        unfolding m' by (rule again(2))
      ultimately show ?thesis
        by simp
    qed
  qed
  from both show "\<not> (falsy (data_train m') \<and> falsy (data_val m') \<and> falsy (data_test m'))"
    by simp
  from both show "setup_dm fmul' rp' m' = Inr m'"
    by (simp add: setup_dm_loaded)
qed



section \<open>The loaders\<close>

lemma batches_short: "0 < b \<Longrightarrow> length xs < b \<Longrightarrow> batches b True xs = []"
  by (simp add: batches.simps)

lemma batches_long:
  "0 < b \<Longrightarrow> b \<le> length xs \<Longrightarrow> batches b True xs = take b xs # batches b True (drop b xs)"
  by (subst batches.simps) simp

lemma length_batches: "0 < b \<Longrightarrow> length (batches b True xs) = length xs div b"
proof (induction "length xs" arbitrary: xs rule: less_induct)
  case less
  show ?case
  proof (cases "length xs < b")
    case True
    with less.prems show ?thesis
      by (simp add: batches_short)
  next
    case False
    then have le: "b \<le> length xs" by simp
    have "length (batches b True (drop b xs)) = length (drop b xs) div b"
      using less.prems le by (intro less.hyps) auto
    with less.prems le show ?thesis
      by (simp add: batches_long le_div_geq)
  qed
qed

lemma batches_full: "0 < b \<Longrightarrow> list_all (\<lambda>x. length x = b) (batches b True xs)"
proof (induction "length xs" arbitrary: xs rule: less_induct)
  case less
  show ?case
  proof (cases "length xs < b")
    case True
    with less.prems show ?thesis
      by (simp add: batches_short)
  next
    case False
    then have le: "b \<le> length xs" by simp
    have "list_all (\<lambda>x. length x = b) (batches b True (drop b xs))"
      using less.prems le by (intro less.hyps) auto
    with less.prems le show ?thesis
      by (simp add: batches_long)
  qed
qed

lemma concat_batches:
  "0 < b \<Longrightarrow> concat (batches b True xs) = take (length xs - length xs mod b) xs"
proof (induction "length xs" arbitrary: xs rule: less_induct)
  case less
  show ?case
  proof (cases "length xs < b")
    case True
    with less.prems show ?thesis
      by (simp add: batches_short)
  next
    case False
    then have le: "b \<le> length xs" by simp
    define r where "r = length xs mod b"
    have ih: "concat (batches b True (drop b xs)) =
        take (length (drop b xs) - length (drop b xs) mod b) (drop b xs)"
      using less.prems le by (intro less.hyps) auto
    have r: "(length xs - b) mod b = r"
      using le by (simp add: r_def le_mod_geq)
    have "b * (length xs div b) + r = length xs"
      by (simp add: r_def)
    moreover have "1 \<le> length xs div b"
      using le less.prems by (simp add: div_greater_zero_iff Suc_leI)
    then have "b \<le> b * (length xs div b)"
      by simp
    ultimately have split: "length xs - r = b + (length xs - b - r)"
      by linarith
    have "concat (batches b True xs) = take b xs @ take (length xs - b - r) (drop b xs)"
      using less.prems le ih r by (simp add: batches_long)
    also have "\<dots> = take (length xs - r) xs"
      by (subst split) (simp add: take_add)
    finally show ?thesis
      by (simp add: r_def)
  qed
qed

lemma loader_epoch_sequential:
  assumes "dl_dataset dl = Some d" "\<not> dl_shuffle dl" "dl_drop_last dl" "0 < dl_batch_size dl"
    and "0 \<le> dl_num_workers dl"
  shows "\<exists>bs. loader_epoch q dl = Inr bs \<and>
           length bs = subset_len d div nat (dl_batch_size dl) \<and>
           list_all (\<lambda>x. length x = nat (dl_batch_size dl)) bs \<and>
           concat bs =
             take (subset_len d - subset_len d mod nat (dl_batch_size dl)) (indices d)"
proof -
  define b where "b = nat (dl_batch_size dl)"
  define bs where "bs = map (map (\<lambda>i. indices d ! i)) (batches b True [0..<subset_len d])"
  have b: "0 < b"
    using assms(4) by (simp add: b_def)
  have run: "loader_epoch q dl = Inr bs"
    using assms by (simp add: loader_epoch_def bs_def b_def)
  have len: "length bs = subset_len d div b"
    using length_batches [OF b, of "[0..<subset_len d]"] by (simp add: bs_def)
  have full: "list_all (\<lambda>x. length x = b) bs"
    using batches_full [OF b, of "[0..<subset_len d]"] by (simp add: bs_def list_all_iff)
  have "concat bs = map (\<lambda>i. indices d ! i) (concat (batches b True [0..<subset_len d]))"
    by (simp add: bs_def map_concat)
  also have "\<dots> = take (subset_len d - subset_len d mod b) (map (\<lambda>i. indices d ! i) [0..<subset_len d])"
    by (simp add: concat_batches [OF b] take_map)
  also have "map (\<lambda>i. indices d ! i) [0..<subset_len d] = indices d"
    unfolding subset_len_def by (rule map_nth)
  finally have "concat bs = take (subset_len d - subset_len d mod b) (indices d)" .
  with run len full show ?thesis
    unfolding b_def by blast
qed

lemma loader_epoch_shuffled:
  assumes "dl_dataset dl = Some d" "dl_shuffle dl" "dl_drop_last dl" "0 < dl_batch_size dl"
    and "0 < subset_len d" "length epoch_perm = subset_len d" "0 \<le> dl_num_workers dl"
  shows "\<exists>bs. loader_epoch epoch_perm dl = Inr bs \<and>
           length bs = subset_len d div nat (dl_batch_size dl) \<and>
           list_all (\<lambda>x. length x = nat (dl_batch_size dl)) bs \<and>
           concat bs =
             take (subset_len d - subset_len d mod nat (dl_batch_size dl))
               (map (\<lambda>i. indices d ! i) epoch_perm)"
proof -
  define b where "b = nat (dl_batch_size dl)"
  define bs where "bs = map (map (\<lambda>i. indices d ! i)) (batches b True epoch_perm)"
  have b: "0 < b"
    using assms(4) by (simp add: b_def)
  have run: "loader_epoch epoch_perm dl = Inr bs"
    using assms by (simp add: loader_epoch_def bs_def b_def)
  have len: "length bs = subset_len d div b"
    using length_batches [OF b, of epoch_perm] assms(6) by (simp add: bs_def)
  have full: "list_all (\<lambda>x. length x = b) bs"
    using batches_full [OF b, of epoch_perm] by (simp add: bs_def list_all_iff)
  have "concat bs = map (\<lambda>i. indices d ! i) (concat (batches b True epoch_perm))"
    by (simp add: bs_def map_concat)
  also have "\<dots> = take (subset_len d - subset_len d mod b) (map (\<lambda>i. indices d ! i) epoch_perm)"
    using assms(6) by (simp add: concat_batches [OF b] take_map)
  finally have "concat bs =
      take (subset_len d - subset_len d mod b) (map (\<lambda>i. indices d ! i) epoch_perm)" .
  with run len full show ?thesis
    unfolding b_def by blast
qed

lemma loader_epoch_empty_shuffled:
  assumes "dl_dataset dl = Some d" "dl_shuffle dl" "subset_len d = 0"
  shows "loader_epoch epoch_perm dl = Inl ValueError"
  using assms by (simp add: loader_epoch_def)

lemma setup_dm_2000: "setup_dm exact_mul id_perm dm_2000 = Inr dm_2000_split"
proof -
  have lens: "split_lengths exact_mul dm_2000 = Inr (1000, 500, 500)"
    by (simp add: dm_2000_def split_lengths_def py_int_def py_trunc_def exact_mul_def)
  have f: "falsy (data_train dm_2000)" "falsy (data_val dm_2000)" "falsy (data_test dm_2000)"
    "divide_batch_size dm_2000 = Inr dm_2000"
    by (simp_all add: dm_2000_def)
  have n: "dataset dm_2000 = zero_dataset 2000"
    by (simp add: dm_2000_def)
  show ?thesis
    unfolding setup_dm_fresh [OF f(4) f(1-3) lens] n dataset_len_zero dm_2000_split_def
    by (simp add: py_slice_def slice_index_def id_perm_def)
qed

lemma setup_dm_one: "setup_dm exact_mul id_perm dm_one = Inr dm_one_split"
proof -
  have lens: "split_lengths exact_mul dm_one = Inr (0, 0, 1)"
    by (simp add: dm_one_def split_lengths_def py_int_def py_trunc_def exact_mul_def)
  have f: "falsy (data_train dm_one)" "falsy (data_val dm_one)" "falsy (data_test dm_one)"
    "divide_batch_size dm_one = Inr dm_one"
    by (simp_all add: dm_one_def)
  have n: "dataset dm_one = zero_dataset 1"
    by (simp add: dm_one_def)
  show ?thesis
    unfolding setup_dm_fresh [OF f(4) f(1-3) lens] n dataset_len_zero dm_one_split_def
    by (simp add: py_slice_def slice_index_def id_perm_def)
qed

text \<open>
  Claim C7 as stated (every loader yields \<open>floor (n / b)\<close> batches for every split of \<open>n\<close>
  samples) is false for the train loader at \<open>n = 0\<close>: on a dataset of one sample the
  default ratios give an empty train subset, and the shuffling loader over it raises
  ValueError when it is built, where the claim has it yield no batch.
\<close>

theorem train_loader_empty_split:
  "setup_dm exact_mul id_perm dm_one = Inr dm_one_split \<and>
   data_train dm_one_split = Some \<lparr>sub_dataset = zero_dataset 1, indices = []\<rparr> \<and>
   batch_size_per_device dm_one_split = 128 \<and>
   loader_epoch [] (train_dataloader dm_one_split) = Inl ValueError"
  using setup_dm_one
  by (simp add: dm_one_split_def dm_one_def train_dataloader_def loader_epoch_def subset_len_def
      datamodule_init_def)

text \<open>
  Claim C7, amended: with a positive batch size \<open>b\<close> per device and a worker count that is
  not negative, the validation and test loaders over a split of \<open>n\<close> samples, and the train
  loader over a split of \<open>n \<ge> 1\<close> samples, each yield exactly \<open>n div b\<close> batches of exactly
  \<open>b\<close> samples; together the batches are the first \<open>n - n mod b\<close> samples of the loader's
  order, so the trailing \<open>n mod b\<close> are dropped. The order of validation and test is the
  order of the split; the order of train is the permutation drawn for the epoch (any list
  of \<open>n\<close> positions), and only the train loader shuffles. The train loader over an empty
  split raises ValueError.
\<close>

theorem loaders_batches:
  fixes m :: "'v ContactPointDataModule"
  assumes b: "0 < batch_size_per_device m" and w: "0 \<le> num_workers m"
  shows "(\<forall>tr. data_train m = Some tr \<longrightarrow>
            (subset_len tr = 0 \<longrightarrow>
               loader_epoch epoch_perm (train_dataloader m) = Inl ValueError) \<and>
            (0 < subset_len tr \<and> length epoch_perm = subset_len tr \<longrightarrow>
               (\<exists>bs. loader_epoch epoch_perm (train_dataloader m) = Inr bs \<and>
                  length bs = subset_len tr div nat (batch_size_per_device m) \<and>
                  list_all (\<lambda>x. length x = nat (batch_size_per_device m)) bs \<and>
                  concat bs =
                    take (subset_len tr - subset_len tr mod nat (batch_size_per_device m))
                      (map (\<lambda>i. indices tr ! i) epoch_perm)))) \<and>
         (\<forall>va. data_val m = Some va \<longrightarrow>
            (\<exists>bs. loader_epoch q (val_dataloader m) = Inr bs \<and>
               length bs = subset_len va div nat (batch_size_per_device m) \<and>
               list_all (\<lambda>x. length x = nat (batch_size_per_device m)) bs \<and>
               concat bs =
                 take (subset_len va - subset_len va mod nat (batch_size_per_device m))
                   (indices va))) \<and>
         (\<forall>te. data_test m = Some te \<longrightarrow>
            (\<exists>bs. loader_epoch q' (test_dataloader m) = Inr bs \<and>
               length bs = subset_len te div nat (batch_size_per_device m) \<and>
               list_all (\<lambda>x. length x = nat (batch_size_per_device m)) bs \<and>
               concat bs =
                 take (subset_len te - subset_len te mod nat (batch_size_per_device m))
                   (indices te))) \<and>
         dl_shuffle (train_dataloader m) \<and> \<not> dl_shuffle (val_dataloader m) \<and>
         \<not> dl_shuffle (test_dataloader m)"
proof -
  have flags: "dl_shuffle (train_dataloader m)" "\<not> dl_shuffle (val_dataloader m)"
    "\<not> dl_shuffle (test_dataloader m)"
    "dl_drop_last (train_dataloader m)" "dl_drop_last (val_dataloader m)"
    "dl_drop_last (test_dataloader m)"
    by (simp_all add: train_dataloader_def val_dataloader_def test_dataloader_def)
  have bsz: "dl_batch_size (train_dataloader m) = batch_size_per_device m"
    "dl_batch_size (val_dataloader m) = batch_size_per_device m"
    "dl_batch_size (test_dataloader m) = batch_size_per_device m"
    by (simp_all add: train_dataloader_def val_dataloader_def test_dataloader_def)
  have wk: "0 \<le> dl_num_workers (train_dataloader m)" "0 \<le> dl_num_workers (val_dataloader m)"
    "0 \<le> dl_num_workers (test_dataloader m)"
    using w by (simp_all add: train_dataloader_def val_dataloader_def test_dataloader_def)
  have pos: "0 < dl_batch_size (train_dataloader m)" "0 < dl_batch_size (val_dataloader m)"
    "0 < dl_batch_size (test_dataloader m)"
    using b by (simp_all add: bsz)
  have train_empty: "loader_epoch epoch_perm (train_dataloader m) = Inl ValueError"
    if "data_train m = Some tr" "subset_len tr = 0" for tr
  proof -
    have "dl_dataset (train_dataloader m) = Some tr"
      using that(1) by (simp add: train_dataloader_def)
    then show ?thesis
      using wk(1) flags(1) that(2) by (simp add: loader_epoch_def)
  qed
  have train: "\<exists>bs. loader_epoch epoch_perm (train_dataloader m) = Inr bs \<and>
                  length bs = subset_len tr div nat (batch_size_per_device m) \<and>
                  list_all (\<lambda>x. length x = nat (batch_size_per_device m)) bs \<and>
                  concat bs =
                    take (subset_len tr - subset_len tr mod nat (batch_size_per_device m))
                      (map (\<lambda>i. indices tr ! i) epoch_perm)"
    if "data_train m = Some tr" "0 < subset_len tr" "length epoch_perm = subset_len tr" for tr
  proof -
    have "dl_dataset (train_dataloader m) = Some tr"
      using that(1) by (simp add: train_dataloader_def)
    from loader_epoch_shuffled [OF this flags(1) flags(4) pos(1) that(2,3) wk(1)]
    show ?thesis
      unfolding bsz .
  qed
  have val: "\<exists>bs. loader_epoch q (val_dataloader m) = Inr bs \<and>
               length bs = subset_len va div nat (batch_size_per_device m) \<and>
               list_all (\<lambda>x. length x = nat (batch_size_per_device m)) bs \<and>
               concat bs =
                 take (subset_len va - subset_len va mod nat (batch_size_per_device m))
                   (indices va)"
    if "data_val m = Some va" for va
  proof -
    have "dl_dataset (val_dataloader m) = Some va"
      using that by (simp add: val_dataloader_def)
    from loader_epoch_sequential [OF this flags(2) flags(5) pos(2) wk(2), of q]
    show ?thesis
      unfolding bsz .
  qed
  have test: "\<exists>bs. loader_epoch q' (test_dataloader m) = Inr bs \<and>
               length bs = subset_len te div nat (batch_size_per_device m) \<and>
               list_all (\<lambda>x. length x = nat (batch_size_per_device m)) bs \<and>
               concat bs =
                 take (subset_len te - subset_len te mod nat (batch_size_per_device m))
                   (indices te)"
    if "data_test m = Some te" for te
  proof -
    have "dl_dataset (test_dataloader m) = Some te"
      using that by (simp add: test_dataloader_def)
    from loader_epoch_sequential [OF this flags(3) flags(6) pos(3) wk(3), of q']
    show ?thesis
      unfolding bsz .
  qed
  from train_empty train val test flags(1-3) show ?thesis
    by blast
qed


theorem loaders_batches_witness:
  "setup_dm exact_mul id_perm dm_2000 = Inr dm_2000_split \<and>
   (\<exists>bs. loader_epoch (rev [0..<1000]) (train_dataloader dm_2000_split) = Inr bs \<and>
      length bs = 15 \<and> list_all (\<lambda>x. length x = 64) bs \<and> length (concat bs) = 960) \<and>
   (\<exists>bs. loader_epoch [] (val_dataloader dm_2000_split) = Inr bs \<and>
      length bs = 7 \<and> list_all (\<lambda>x. length x = 64) bs \<and> concat bs = [1000..<1448]) \<and>
   (\<exists>bs. loader_epoch [] (test_dataloader dm_2000_split) = Inr bs \<and>
      length bs = 7 \<and> list_all (\<lambda>x. length x = 64) bs \<and> concat bs = [1500..<1948]) \<and>
   setup_dm exact_mul id_perm dm_one = Inr dm_one_split \<and>
   loader_epoch [] (train_dataloader dm_one_split) = Inl ValueError \<and>
   (\<exists>bs. loader_epoch [] (test_dataloader dm_one_split) = Inr bs \<and> length bs = 0)"
proof -
  define tr :: "int Subset" where "tr = \<lparr>sub_dataset = zero_dataset 2000, indices = [0..<1000]\<rparr>"
  define va :: "int Subset" where "va = \<lparr>sub_dataset = zero_dataset 2000, indices = [1000..<1500]\<rparr>"
  define te :: "int Subset" where "te = \<lparr>sub_dataset = zero_dataset 2000, indices = [1500..<2000]\<rparr>"
  define s0 :: "int Subset" where "s0 = \<lparr>sub_dataset = zero_dataset 1, indices = []\<rparr>"
  define s1 :: "int Subset" where "s1 = \<lparr>sub_dataset = zero_dataset 1, indices = [0]\<rparr>"
  have h: "0 < batch_size_per_device dm_2000_split" "0 \<le> num_workers dm_2000_split"
    by (simp_all add: dm_2000_split_def dm_2000_def datamodule_init_def)
  have g: "0 < batch_size_per_device dm_one_split" "0 \<le> num_workers dm_one_split"
    by (simp_all add: dm_one_split_def dm_one_def datamodule_init_def)
  have d: "data_train dm_2000_split = Some tr" "data_val dm_2000_split = Some va"
    "data_test dm_2000_split = Some te" "0 < subset_len tr"
    "length (rev [0..<1000]) = subset_len tr"
    by (simp_all add: dm_2000_split_def tr_def va_def te_def subset_len_def)
  have c: "data_train dm_one_split = Some s0" "subset_len s0 = 0" "data_test dm_one_split = Some s1"
    by (simp_all add: dm_one_split_def s0_def s1_def subset_len_def)
  have sz: "subset_len tr = 1000" "subset_len va = 500" "subset_len te = 500"
    "nat (batch_size_per_device dm_2000_split) = 64"
    "indices va = [1000..<1500]" "indices te = [1500..<2000]"
    by (simp_all add: dm_2000_split_def dm_2000_def tr_def va_def te_def subset_len_def)
  have sz1: "subset_len s1 = 1" "nat (batch_size_per_device dm_one_split) = 128"
    by (simp_all add: dm_one_split_def dm_one_def s1_def subset_len_def)
  note T = loaders_batches [of dm_2000_split "rev [0..<1000]" "[]" "[]", OF h]
  note U = loaders_batches [of dm_one_split "[]" "[]" "[]", OF g]
  from T d(1,4,5) obtain bs1 where
    b1: "loader_epoch (rev [0..<1000]) (train_dataloader dm_2000_split) = Inr bs1"
      "length bs1 = subset_len tr div nat (batch_size_per_device dm_2000_split)"
      "list_all (\<lambda>x. length x = nat (batch_size_per_device dm_2000_split)) bs1"
      "concat bs1 =
         take (subset_len tr - subset_len tr mod nat (batch_size_per_device dm_2000_split))
           (map (\<lambda>i. indices tr ! i) (rev [0..<1000]))"
    by blast
  from T d(2) obtain bs2 where
    b2: "loader_epoch [] (val_dataloader dm_2000_split) = Inr bs2"
      "length bs2 = subset_len va div nat (batch_size_per_device dm_2000_split)"
      "list_all (\<lambda>x. length x = nat (batch_size_per_device dm_2000_split)) bs2"
      "concat bs2 =
         take (subset_len va - subset_len va mod nat (batch_size_per_device dm_2000_split))
           (indices va)"
    by blast
  from T d(3) obtain bs3 where
    b3: "loader_epoch [] (test_dataloader dm_2000_split) = Inr bs3"
      "length bs3 = subset_len te div nat (batch_size_per_device dm_2000_split)"
      "list_all (\<lambda>x. length x = nat (batch_size_per_device dm_2000_split)) bs3"
      "concat bs3 =
         take (subset_len te - subset_len te mod nat (batch_size_per_device dm_2000_split))
           (indices te)"
    by blast
  from U c(1,2) have e1: "loader_epoch [] (train_dataloader dm_one_split) = Inl ValueError"
    by blast
  from U c(3) obtain bs4 where
    b4: "loader_epoch [] (test_dataloader dm_one_split) = Inr bs4"
      "length bs4 = subset_len s1 div nat (batch_size_per_device dm_one_split)"
    by blast
  have l1: "length bs1 = 15" "list_all (\<lambda>x. length x = 64) bs1" "length (concat bs1) = 960"
    using b1(2,3) by (simp_all add: b1(4) sz)
  have l2: "length bs2 = 7" "list_all (\<lambda>x. length x = 64) bs2" "concat bs2 = [1000..<1448]"
    using b2(2,3) by (simp_all add: b2(4) sz)
  have l3: "length bs3 = 7" "list_all (\<lambda>x. length x = 64) bs3" "concat bs3 = [1500..<1948]"
    using b3(2,3) by (simp_all add: b3(4) sz)
  have l4: "length bs4 = 0"
    using b4(2) by (simp add: sz1)
  from setup_dm_2000 setup_dm_one b1(1) b2(1) b3(1) b4(1) e1 l1 l2 l3 l4 show ?thesis
    by blast
qed

end
